theory Spec2Isabelle
  imports Complex_Main "HOL-Library.Multiset"
begin

section \<open>Numbers and strings of the source language\<close>

text \<open>
  The source is TypeScript. Its \<^verbatim>\<open>number\<close> values are modelled as exact reals: every
  \<^verbatim>\<open>parseFloat\<close> of a ledger field is taken to yield a finite number, and sums and
  products are those of \<open>\<real>\<close>. What the code does to a number on purpose (rounding with
  \<^verbatim>\<open>toFixed\<close>, the comparisons with \<^verbatim>\<open>0.001\<close>) is part of the model; what binary
  floating point adds on top (representation error, NaN, infinities) is not.
\<close>

text \<open>
  \<^verbatim>\<open>Number(x.toFixed(d))\<close>: the decimal with \<open>d\<close> fractional digits nearest to \<open>x\<close>;
  a negative \<open>x\<close> is negated first, and of two nearest candidates the larger magnitude
  is taken (ECMAScript, Number.prototype.toFixed).
\<close>

definition toFixed :: "nat \<Rightarrow> real \<Rightarrow> real" where
  "toFixed d x =
     (if x < 0 then - (of_int \<lfloor>(- x) * 10 ^ d + 1 / 2\<rfloor> / 10 ^ d)
      else of_int \<lfloor>x * 10 ^ d + 1 / 2\<rfloor> / 10 ^ d)"

text \<open>
  Where a division is not guarded by the code, its result is kept as the source language
  gives it: a number, or for a zero divisor \<^verbatim>\<open>NaN\<close> (zero by zero) or an infinity.
  Multiplying and \<^verbatim>\<open>toFixed\<close> pass \<^verbatim>\<open>NaN\<close> and the infinities on.
\<close>

datatype jsNumber = JsNum real | JsNaN | JsInfinity | JsNegInfinity

definition jsDivide :: "real \<Rightarrow> real \<Rightarrow> jsNumber" where
  "jsDivide x y =
     (if y \<noteq> 0 then JsNum (x / y)
      else if x = 0 then JsNaN
      else if 0 < x then JsInfinity
      else JsNegInfinity)"

fun jsTimes :: "jsNumber \<Rightarrow> real \<Rightarrow> jsNumber" where
  "jsTimes (JsNum x) c = JsNum (x * c)"
| "jsTimes JsNaN c = JsNaN"
| "jsTimes JsInfinity c =
     (if c = 0 then JsNaN else if 0 < c then JsInfinity else JsNegInfinity)"
| "jsTimes JsNegInfinity c =
     (if c = 0 then JsNaN else if 0 < c then JsNegInfinity else JsInfinity)"

fun jsToFixed :: "nat \<Rightarrow> jsNumber \<Rightarrow> jsNumber" where
  "jsToFixed d (JsNum x) = JsNum (toFixed d x)"
| "jsToFixed d n = n"

text \<open>
  \<^verbatim>\<open>String.prototype.toLowerCase\<close> on the letters \<open>A\<close> to \<open>Z\<close>; every other
  character is left as it is. None of the labels the code compares with contains a
  letter that some character outside this range lowercases to.
\<close>

definition lowerChar :: "char \<Rightarrow> char" where
  "lowerChar c =
     (case map_of (zip ''ABCDEFGHIJKLMNOPQRSTUVWXYZ'' ''abcdefghijklmnopqrstuvwxyz'') c of
        None \<Rightarrow> c
      | Some l \<Rightarrow> l)"

definition toLowerCase :: "string \<Rightarrow> string" where
  "toLowerCase s = map lowerChar s"

section \<open>Data model (src/types/backtest.ts)\<close>

text \<open>
  A ledger row. The fields the replay and the metrics read are kept: \<open>time\<close> is the raw
  text (it is also the key of the open-order map), \<open>getTime\<close> is
  \<^verbatim>\<open>new Date(trade.time).getTime()\<close> with \<open>None\<close> for an invalid date, and \<open>price\<close>,
  \<open>profitLoss\<close>, \<open>lots\<close> are \<^verbatim>\<open>parseFloat\<close> of the fields \<^verbatim>\<open>price\<close>,
  \<^verbatim>\<open>profitLoss\<close> and \<^verbatim>\<open>open\<close> (the metrics read an empty \<^verbatim>\<open>profitLoss\<close> as 0).
\<close>

record Trade =
  time :: string
  getTime :: "int option"
  type :: string
  price :: real
  profitLoss :: real
  lots :: real

text \<open>A price bar; \<open>close\<close> and \<open>conversionFx\<close> are the fields the replay reads.\<close>

record MarketData =
  timestamp :: int
  close :: real
  conversionFx :: real

text \<open>The row emitted per bar (interface PeriodData of part_002).\<close>

record PeriodData =
  pd_time :: int
  pd_position :: real
  pd_closed :: real
  pd_aep :: real
  pd_eoPeriodPrice :: real
  pd_convertFX :: real
  pd_open :: real
  pd_total :: real

text \<open>Analytics.tsx adds the bar's raw timestamp to the row.\<close>

record PeriodDataTs = PeriodData +
  pd_timestamp :: int

section \<open>The open-order map\<close>

text \<open>
  \<^verbatim>\<open>openOrderMap: Record<string, [number, number]>\<close> is a plain object. It is modelled
  as the list of its own properties in creation order. Assigning to an existing key
  replaces the value and keeps the property's place; \<^verbatim>\<open>delete\<close> removes it.
  Keys are ordinary property names (the name \<^verbatim>\<open>__proto__\<close> is outside the model).
\<close>

type_synonym OpenOrderMap = "(string \<times> (real \<times> real)) list"

fun assign :: "string \<Rightarrow> real \<times> real \<Rightarrow> OpenOrderMap \<Rightarrow> OpenOrderMap" where
  "assign k v [] = [(k, v)]"
| "assign k v ((k', v') # m) = (if k' = k then (k, v) # m else (k', v') # assign k v m)"

definition delete :: "string \<Rightarrow> OpenOrderMap \<Rightarrow> OpenOrderMap" where
  "delete k m = filter (\<lambda>e. fst e \<noteq> k) m"

text \<open>
  Property enumeration (\<^verbatim>\<open>Object.keys\<close>, \<^verbatim>\<open>Object.values\<close>) lists the keys that
  are array indices first, in ascending numeric order, and then all other keys in
  creation order. An array index is the canonical decimal text of a number below
  \<open>2^32 - 1\<close>.
\<close>

definition digitValue :: "char \<Rightarrow> nat option" where
  "digitValue c = map_of (zip ''0123456789'' [0, 1, 2, 3, 4, 5, 6, 7, 8, 9]) c"

fun decimalValue :: "nat \<Rightarrow> string \<Rightarrow> nat option" where
  "decimalValue acc [] = Some acc"
| "decimalValue acc (c # cs) =
     (case digitValue c of
        None \<Rightarrow> None
      | Some d \<Rightarrow> decimalValue (10 * acc + d) cs)"

definition arrayIndex :: "string \<Rightarrow> nat option" where
  "arrayIndex k =
     (case k of
        [] \<Rightarrow> None
      | c # cs \<Rightarrow>
          if c = CHR ''0'' \<and> cs \<noteq> [] then None
          else (case decimalValue 0 k of
                  None \<Rightarrow> None
                | Some n \<Rightarrow> if n < 2 ^ 32 - 1 then Some n else None))"

definition indexEntries :: "OpenOrderMap \<Rightarrow> (nat \<times> string \<times> (real \<times> real)) list" where
  "indexEntries m =
     List.map_filter (\<lambda>e. case arrayIndex (fst e) of None \<Rightarrow> None | Some n \<Rightarrow> Some (n, e)) m"

definition objectEntries :: "OpenOrderMap \<Rightarrow> (string \<times> (real \<times> real)) list" where
  "objectEntries m =
     map snd (sort_key fst (indexEntries m)) @ filter (\<lambda>e. arrayIndex (fst e) = None) m"

definition objectKeys :: "OpenOrderMap \<Rightarrow> string list" where
  "objectKeys m = map fst (objectEntries m)"

definition objectValues :: "OpenOrderMap \<Rightarrow> (real \<times> real) list" where
  "objectValues m = map snd (objectEntries m)"

section \<open>The position model (Analytics.tsx, periodData)\<close>

record PositionState =
  openOrderMap :: OpenOrderMap
  position :: real
  closedProfit :: real

definition initialState :: PositionState where
  "initialState = \<lparr>openOrderMap = [], position = 0, closedProfit = 0\<rparr>"

text \<open>\<^verbatim>\<open>calculateAverageEntryPrice\<close>, lines 53 to 63: the loop over the values, then the guard.\<close>

definition sumLotsPL :: "OpenOrderMap \<Rightarrow> real \<times> real" where
  "sumLotsPL orders =
     fold (\<lambda>(l, p) (sumLots, sumPL). (sumLots + l, sumPL + l * p)) (objectValues orders) (0, 0)"

definition calculateAverageEntryPrice :: "OpenOrderMap \<Rightarrow> real" where
  "calculateAverageEntryPrice orders =
     (let (sumLots, sumPL) = sumLotsPL orders
      in if \<bar>sumLots\<bar> > 0.001 then sumPL / sumLots else 0)"

text \<open>
  The \<^verbatim>\<open>switch\<close> of Analytics.tsx, lines 81 to 101. In the close branch
  \<^verbatim>\<open>Object.keys(openOrderMap)[0]\<close> is undefined on an empty map, and
  \<^verbatim>\<open>if (orderKey)\<close> also skips the empty key.
\<close>

definition switchTrade :: "PositionState \<Rightarrow> Trade \<Rightarrow> PositionState" where
  "switchTrade s trade =
     (let ty = toLowerCase (type trade) in
      if ty = ''buy'' then
        s\<lparr>position := toFixed 2 (position s + lots trade),
          openOrderMap := assign (time trade) (lots trade, price trade) (openOrderMap s)\<rparr>
      else if ty = ''sell'' then
        s\<lparr>position := toFixed 2 (position s - lots trade),
          openOrderMap := assign (time trade) (- lots trade, price trade) (openOrderMap s)\<rparr>
      else if ty = ''t/p'' \<or> ty = ''s/l'' then
        (case objectEntries (openOrderMap s) of
           [] \<Rightarrow> s
         | (orderKey, (orderLots, orderPrice)) # rest \<Rightarrow>
             if orderKey = [] then s
             else
               let direction = (if orderLots > 0 then 1 else - 1) in
               s\<lparr>position := toFixed 2 (position s - direction * lots trade),
                 openOrderMap := delete orderKey (openOrderMap s),
                 closedProfit := closedProfit s + profitLoss trade\<rparr>)
      else s)"

text \<open>
  The second copy of the component (part_002, lines 84 to 104) has the same \<^verbatim>\<open>switch\<close>
  with the close labels \<^verbatim>\<open>'t/p'\<close> and \<^verbatim>\<open>'close at stop'\<close>.
\<close>

definition switchTrade2 :: "PositionState \<Rightarrow> Trade \<Rightarrow> PositionState" where
  "switchTrade2 s trade =
     (let ty = toLowerCase (type trade) in
      if ty = ''buy'' then
        s\<lparr>position := toFixed 2 (position s + lots trade),
          openOrderMap := assign (time trade) (lots trade, price trade) (openOrderMap s)\<rparr>
      else if ty = ''sell'' then
        s\<lparr>position := toFixed 2 (position s - lots trade),
          openOrderMap := assign (time trade) (- lots trade, price trade) (openOrderMap s)\<rparr>
      else if ty = ''t/p'' \<or> ty = ''close at stop'' then
        (case objectEntries (openOrderMap s) of
           [] \<Rightarrow> s
         | (orderKey, (orderLots, orderPrice)) # rest \<Rightarrow>
             if orderKey = [] then s
             else
               let direction = (if orderLots > 0 then 1 else - 1) in
               s\<lparr>position := toFixed 2 (position s - direction * lots trade),
                 openOrderMap := delete orderKey (openOrderMap s),
                 closedProfit := closedProfit s + profitLoss trade\<rparr>)
      else s)"

section \<open>The replay (Analytics.tsx, periodData)\<close>

text \<open>
  The \<^verbatim>\<open>while\<close> loop of lines 75 to 102: as long as the ledger has a head whose date
  is at or before the bar's, the head is shifted off and dispatched. A head with an
  invalid date compares false and stays. The loop is the same text in both copies; the
  dispatch is the parameter \<open>sw\<close>. The result is the ledger that is left and the state.
\<close>

fun processTrades ::
  "(PositionState \<Rightarrow> Trade \<Rightarrow> PositionState) \<Rightarrow> int \<Rightarrow> Trade list \<Rightarrow> PositionState
     \<Rightarrow> Trade list \<times> PositionState" where
  "processTrades sw ts [] s = ([], s)"
| "processTrades sw ts (trade # sortedTrades) s =
     (case getTime trade of
        None \<Rightarrow> (trade # sortedTrades, s)
      | Some tm \<Rightarrow>
          if tm \<le> ts then processTrades sw ts sortedTrades (sw s trade)
          else (trade # sortedTrades, s))"

text \<open>Lines 105 to 107: the floating value of the position at a bar.\<close>

definition floating :: "PositionState \<Rightarrow> MarketData \<Rightarrow> real" where
  "floating s data =
     (if \<bar>position s\<bar> > 0.001
      then ((close data - calculateAverageEntryPrice (openOrderMap s)) * position s * 100000)
             / conversionFx data
      else 0)"

text \<open>
  Lines 109 to 119: the row of a bar. \<open>pd_time\<close> stands for the ISO text of the bar's
  instant.
\<close>

definition periodRow :: "PositionState \<Rightarrow> MarketData \<Rightarrow> PeriodData" where
  "periodRow s data =
     \<lparr>pd_time = timestamp data,
      pd_position = position s,
      pd_closed = toFixed 2 (closedProfit s),
      pd_aep = toFixed 3 (calculateAverageEntryPrice (openOrderMap s)),
      pd_eoPeriodPrice = close data,
      pd_convertFX = conversionFx data,
      pd_open = toFixed 2 (floating s data),
      pd_total = toFixed 2 (floating s data + closedProfit s)\<rparr>"

text \<open>
  \<^verbatim>\<open>marketData.map(data => ...)\<close>: the bars in array order, the ledger and the state
  carried from bar to bar. Each row is paired with the state it was computed from.
\<close>

fun runPeriods ::
  "(PositionState \<Rightarrow> Trade \<Rightarrow> PositionState) \<Rightarrow> MarketData list \<Rightarrow> Trade list \<Rightarrow> PositionState
     \<Rightarrow> (PositionState \<times> PeriodData) list" where
  "runPeriods sw [] sortedTrades s = []"
| "runPeriods sw (data # marketData) sortedTrades s =
     (case processTrades sw (timestamp data) sortedTrades s of
        (sortedTrades', s') \<Rightarrow>
          (s', periodRow s' data) # runPeriods sw marketData sortedTrades' s')"

text \<open>
  The two components. The argument \<open>sortedTrades\<close> is the ledger after the sort by date
  of line 66; a missing \<^verbatim>\<open>marketData\<close> gives the empty list (line 45).
\<close>

definition periodData :: "MarketData list option \<Rightarrow> Trade list \<Rightarrow> PeriodDataTs list" where
  "periodData marketData sortedTrades =
     (case marketData of
        None \<Rightarrow> []
      | Some bars \<Rightarrow>
          map (\<lambda>(data, row). PeriodData.extend row \<lparr>pd_timestamp = timestamp data\<rparr>)
            (zip bars (map snd (runPeriods switchTrade bars sortedTrades initialState))))"

definition periodData2 :: "MarketData list option \<Rightarrow> Trade list \<Rightarrow> PeriodData list" where
  "periodData2 marketData sortedTrades =
     (case marketData of
        None \<Rightarrow> []
      | Some bars \<Rightarrow> map snd (runPeriods switchTrade2 bars sortedTrades initialState))"

section \<open>The metrics (calculateMetrics)\<close>

definition closedTrades :: "Trade list \<Rightarrow> Trade list" where
  "closedTrades trades =
     filter (\<lambda>t. toLowerCase (type t) = ''t/p'' \<or> toLowerCase (type t) = ''s/l'') trades"

definition totalClosedTrades :: "Trade list \<Rightarrow> nat" where
  "totalClosedTrades trades =
     (if length (closedTrades trades) = 0 then 1 else length (closedTrades trades))"

definition winningTrades :: "Trade list \<Rightarrow> nat" where
  "winningTrades trades = length (filter (\<lambda>t. profitLoss t > 0) (closedTrades trades))"

text \<open>
  What is printed as \<^verbatim>\<open>winRate\<close>, before the percent sign:
  \<^verbatim>\<open>((winningTrades / totalClosedTrades) * 100).toFixed(1)\<close>.
\<close>

definition winRate :: "Trade list \<Rightarrow> jsNumber" where
  "winRate trades =
     jsToFixed 1
       (jsTimes (jsDivide (real (winningTrades trades)) (real (totalClosedTrades trades))) 100)"

text \<open>
  The drawdown loop, lines 314 to 327. The loop state is \<open>(maxDrawdown, peak, balance)\<close>;
  \<open>drawdownStep\<close> is one iteration and also returns the iteration's \<open>drawdown\<close>.
\<close>

record DrawdownState =
  maxDrawdown :: real
  peak :: real
  balance :: real

definition drawdownInit :: DrawdownState where
  "drawdownInit = \<lparr>maxDrawdown = 0, peak = 0, balance = 100000\<rparr>"

definition drawdownStep :: "DrawdownState \<Rightarrow> Trade \<Rightarrow> real \<times> DrawdownState" where
  "drawdownStep st trade =
     (let balance' = balance st + profitLoss trade;
          peak' = (if balance' > peak st then balance' else peak st);
          drawdown = (if peak' > 0 then ((peak' - balance') / peak') * 100 else 0);
          maxDrawdown' = (if drawdown > maxDrawdown st then drawdown else maxDrawdown st)
      in (drawdown, \<lparr>maxDrawdown = maxDrawdown', peak = peak', balance = balance'\<rparr>))"

text \<open>The loop, with the list of the \<open>(drawdown, maxDrawdown)\<close> pairs of its iterations.\<close>

fun drawdownLoop :: "DrawdownState \<Rightarrow> Trade list \<Rightarrow> (real \<times> real) list \<times> DrawdownState" where
  "drawdownLoop st [] = ([], st)"
| "drawdownLoop st (trade # trades) =
     (case drawdownStep st trade of
        (drawdown, st') \<Rightarrow>
          (case drawdownLoop st' trades of
             (steps, final) \<Rightarrow> ((drawdown, maxDrawdown st') # steps, final)))"

definition calcMaxDrawdown :: "Trade list \<Rightarrow> real" where
  "calcMaxDrawdown trades = maxDrawdown (snd (drawdownLoop drawdownInit trades))"

section \<open>Notions used in the statements\<close>

text \<open>The iterations of the drawdown loop: each \<open>drawdown\<close>, and \<open>maxDrawdown\<close> after it.\<close>

definition drawdowns :: "Trade list \<Rightarrow> real list" where
  "drawdowns trades = map fst (fst (drawdownLoop drawdownInit trades))"

definition runningMaxDrawdown :: "Trade list \<Rightarrow> real list" where
  "runningMaxDrawdown trades = map snd (fst (drawdownLoop drawdownInit trades))"

text \<open>The loop condition of line 75 for a ledger row: its date is valid and not after the bar.\<close>

definition due :: "int \<Rightarrow> Trade \<Rightarrow> bool" where
  "due ts trade = (case getTime trade of None \<Rightarrow> False | Some tm \<Rightarrow> tm \<le> ts)"

text \<open>
  A time-sorted ledger: every row has a valid date and no row is dated before an earlier
  row.
\<close>

definition notAfter :: "Trade \<Rightarrow> Trade \<Rightarrow> bool" where
  "notAfter a b =
     (case getTime a of
        None \<Rightarrow> False
      | Some ta \<Rightarrow> (case getTime b of None \<Rightarrow> False | Some tb \<Rightarrow> ta \<le> tb))"

definition timeSorted :: "Trade list \<Rightarrow> bool" where
  "timeSorted ledger =
     (list_all (\<lambda>t. getTime t \<noteq> None) ledger \<and> sorted_wrt notAfter ledger)"

text \<open>A number with at most two decimals: rounding to two decimals returns it.\<close>

definition centsValue :: "real \<Rightarrow> bool" where
  "centsValue x = (toFixed 2 x = x)"





section \<open>Ledgers and bars used as concrete inputs\<close>

text \<open>Dates are those of 1 January 2024 (UTC), in milliseconds since the epoch.\<close>

definition openO1 :: Trade where
  "openO1 = \<lparr>time = ''2024.01.01 09:00'', getTime = Some 1704099600000, type = ''BUY'',
     price = 1.1, profitLoss = 0, lots = 1\<rparr>"

definition openO2 :: Trade where
  "openO2 = \<lparr>time = ''2024.01.01 09:05'', getTime = Some 1704099900000, type = ''BUY'',
     price = 1.2, profitLoss = 0, lots = 1\<rparr>"

definition closeC1 :: Trade where
  "closeC1 = \<lparr>time = ''2024.01.01 09:10'', getTime = Some 1704100200000, type = ''T/P'',
     price = 1.25, profitLoss = 50, lots = 1\<rparr>"

definition closeSL :: Trade where
  "closeSL = \<lparr>time = ''2024.01.01 09:10'', getTime = Some 1704100200000, type = ''S/L'',
     price = 1.1, profitLoss = - 20, lots = 1\<rparr>"

definition closeAtStop :: Trade where
  "closeAtStop = \<lparr>time = ''2024.01.01 09:10'', getTime = Some 1704100200000,
     type = ''close at stop'', price = 1.1, profitLoss = - 20, lots = 1\<rparr>"

definition sellAt0900 :: Trade where
  "sellAt0900 = \<lparr>time = ''2024.01.01 09:00'', getTime = Some 1704099600000, type = ''SELL'',
     price = 1.2, profitLoss = 0, lots = 1\<rparr>"

definition tinyBuy :: Trade where
  "tinyBuy = \<lparr>time = ''2024.01.01 09:00'', getTime = Some 1704099600000, type = ''BUY'',
     price = 1.1, profitLoss = 0, lots = 0.001\<rparr>"

definition bar0910 :: MarketData where
  "bar0910 = \<lparr>timestamp = 1704100200000, close = 1.25, conversionFx = 1\<rparr>"

definition otherRow :: Trade where
  "otherRow = \<lparr>time = ''2024.01.01 09:02'', getTime = Some 1704099720000, type = ''balance'',
     price = 0, profitLoss = 500, lots = 1\<rparr>"

definition bar0900 :: MarketData where
  "bar0900 = \<lparr>timestamp = 1704099600000, close = 1.1, conversionFx = 1\<rparr>"

definition bar0905 :: MarketData where
  "bar0905 = \<lparr>timestamp = 1704099900000, close = 1.103, conversionFx = 1\<rparr>"




text \<open>A year alone is a valid date text: the first instant of the year, in UTC.\<close>

definition openOld :: Trade where
  "openOld = \<lparr>time = ''2021.01.01 00:00'', getTime = Some 1609459200000, type = ''BUY'',
     price = 1.1, profitLoss = 0, lots = 1\<rparr>"

definition openYear :: Trade where
  "openYear = \<lparr>time = ''2022'', getTime = Some 1640995200000, type = ''BUY'',
     price = 1.2, profitLoss = 0, lots = 1\<rparr>"

definition closeLater :: Trade where
  "closeLater = \<lparr>time = ''2022.01.02 00:00'', getTime = Some 1641081600000, type = ''T/P'',
     price = 1.25, profitLoss = 50, lots = 1\<rparr>"

definition barLater :: MarketData where
  "barLater = \<lparr>timestamp = 1641081600000, close = 1.25, conversionFx = 1\<rparr>"

section \<open>Properties of the open-order map\<close>

lemma map_snd_indexEntries:
  "map snd (indexEntries m) = filter (\<lambda>e. arrayIndex (fst e) \<noteq> None) m"
  by (induction m) (auto simp: indexEntries_def split: option.splits)

lemma mset_objectEntries: "mset (objectEntries m) = mset m"
proof -
  have "mset (map snd (sort_key fst (indexEntries m))) = mset (map snd (indexEntries m))"
    by (metis mset_map mset_sort)
  then show ?thesis
    unfolding objectEntries_def
    by (simp add: map_snd_indexEntries del: mset_map)
qed


lemma objectEntries_Nil [simp]: "objectEntries [] = []"
  by (simp add: objectEntries_def indexEntries_def)

lemma objectEntries_plain:
  assumes "\<forall>e \<in> set m. arrayIndex (fst e) = None"
  shows "objectEntries m = m"
proof -
  from assms have "filter (\<lambda>e. arrayIndex (fst e) \<noteq> None) m = []"
    by (simp add: filter_empty_conv)
  then have "indexEntries m = []"
    by (metis map_snd_indexEntries map_is_Nil_conv)
  moreover from assms have "filter (\<lambda>e. arrayIndex (fst e) = None) m = m"
    by (simp add: filter_id_conv)
  ultimately show ?thesis by (simp add: objectEntries_def)
qed

lemma fold_sums:
  "fold (\<lambda>(l, p) (sumLots, sumPL). (sumLots + l, sumPL + l * p)) vs (a, b)
     = (a + sum_list (map fst vs), b + sum_list (map (\<lambda>v. fst v * snd v) vs))"
  by (induction vs arbitrary: a b) (auto simp: algebra_simps)

lemma sum_list_objectValues:
  fixes f :: "real \<times> real \<Rightarrow> real"
  shows "sum_list (map f (objectValues m)) = sum_list (map (\<lambda>e. f (snd e)) m)"
proof -
  have "sum_list (map f (objectValues m))
          = sum_mset (image_mset (\<lambda>e. f (snd e)) (mset (objectEntries m)))"
    by (simp add: objectValues_def sum_mset_sum_list [symmetric] comp_def)
  also have "\<dots> = sum_list (map (\<lambda>e. f (snd e)) m)"
    by (simp add: mset_objectEntries sum_mset_sum_list [symmetric])
  finally show ?thesis .
qed

lemma sumLotsPL_eq:
  "sumLotsPL m =
     (sum_list (map (\<lambda>e. fst (snd e)) m), sum_list (map (\<lambda>e. fst (snd e) * snd (snd e)) m))"
  by (simp add: sumLotsPL_def fold_sums sum_list_objectValues)

section \<open>Orphan closes\<close>

text \<open>
  C1, as stated: a close applied to an empty open-order map still adds its realized
  profit to the closed-profit accumulator. The code does not: the accumulation is inside
  the \<^verbatim>\<open>if (orderKey)\<close> guard. An orphan close of \<open>-20\<close> on the initial state leaves
  the accumulator at \<open>0\<close>, in both copies of the component.
\<close>

theorem orphan_close_pnl_counterexample:
  "openOrderMap initialState = [] \<and> profitLoss closeSL = - 20
   \<and> closedProfit (switchTrade initialState closeSL) = 0
   \<and> closedProfit (switchTrade initialState closeSL)
        \<noteq> closedProfit initialState + profitLoss closeSL
   \<and> closedProfit (switchTrade2 initialState closeAtStop)
        \<noteq> closedProfit initialState + profitLoss closeAtStop"
  by (simp add: switchTrade_def switchTrade2_def initialState_def closeSL_def closeAtStop_def
      toLowerCase_def lowerChar_def)

text \<open>
  C1, amended: a close trade applied when no lot is open is tolerated (the dispatch is a
  total function and returns a state) and leaves the whole state as it was: the net
  position, the open-order map and also the closed-profit accumulator. The trade's
  realized profit is dropped.
\<close>

theorem orphan_close_no_effect:
  assumes "openOrderMap s = []"
  shows "(toLowerCase (type t) = ''t/p'' \<or> toLowerCase (type t) = ''s/l''
            \<longrightarrow> switchTrade s t = s)
       \<and> (toLowerCase (type t) = ''t/p'' \<or> toLowerCase (type t) = ''close at stop''
            \<longrightarrow> switchTrade2 s t = s)"
  using assms by (auto simp: switchTrade_def switchTrade2_def)

theorem orphan_close_no_effect_witness:
  "switchTrade initialState closeSL = initialState
   \<and> switchTrade2 initialState closeAtStop = initialState"
proof -
  have e: "openOrderMap initialState = []"
    by (simp add: initialState_def)
  have a: "toLowerCase (type closeSL) = ''s/l''"
    by (simp add: closeSL_def toLowerCase_def lowerChar_def)
  have b: "toLowerCase (type closeAtStop) = ''close at stop''"
    by (simp add: closeAtStop_def toLowerCase_def lowerChar_def)
  from orphan_close_no_effect [OF e, of closeSL] a
  have "switchTrade initialState closeSL = initialState" by simp
  moreover from orphan_close_no_effect [OF e, of closeAtStop] b
  have "switchTrade2 initialState closeAtStop = initialState" by simp
  ultimately show ?thesis by simp
qed

section \<open>Which lot a close takes\<close>

lemma delete_head:
  assumes "distinct (map fst ((k, v) # rest))"
  shows "delete k ((k, v) # rest) = rest"
proof -
  from assms have "\<forall>e \<in> set rest. fst e \<noteq> k" by auto
  then show ?thesis by (simp add: delete_def filter_id_conv)
qed

text \<open>
  A close removes the head of the open-order map in creation order, whatever the price
  and the size of the close and of the lots are, as long as no key of the map is an array
  index: then the first key that \<^verbatim>\<open>Object.keys\<close> lists is the one created first (the
  keys of an object are distinct). With O1 at 09:00 (1 lot at 1.1000), O2 at 09:05 (1 lot
  at 1.2000) and the close C1 at 09:10, O2 is left alone in the map, the average entry
  price is 1.2, and the row of the 09:10 bar shows position 1 and average entry price 1.2.
\<close>

lemma close_removes_first_created_lot:
  "(\<forall>s t k v rest.
      openOrderMap s = (k, v) # rest \<and> k \<noteq> [] \<and> distinct (map fst (openOrderMap s))
      \<and> (\<forall>e \<in> set (openOrderMap s). arrayIndex (fst e) = None)
      \<and> (toLowerCase (type t) = ''t/p'' \<or> toLowerCase (type t) = ''s/l'')
      \<longrightarrow> openOrderMap (switchTrade s t) = rest)
   \<and> openOrderMap (foldl switchTrade initialState [openO1, openO2, closeC1])
        = [(time openO2, (1, 1.2))]
   \<and> calculateAverageEntryPrice
        (openOrderMap (foldl switchTrade initialState [openO1, openO2, closeC1])) = 1.2
   \<and> map (\<lambda>r. (pd_position r, pd_aep r)) (periodData (Some [bar0910]) [openO1, openO2, closeC1])
        = [(1, 1.2)]"
proof (intro conjI allI impI)
  fix s :: PositionState and t :: Trade and k v rest
  assume h: "openOrderMap s = (k, v) # rest \<and> k \<noteq> [] \<and> distinct (map fst (openOrderMap s))
      \<and> (\<forall>e \<in> set (openOrderMap s). arrayIndex (fst e) = None)
      \<and> (toLowerCase (type t) = ''t/p'' \<or> toLowerCase (type t) = ''s/l'')"
  then have m: "openOrderMap s = (k, v) # rest" and k: "k \<noteq> []"
    and d: "distinct (map fst (openOrderMap s))"
    and i: "\<forall>e \<in> set (openOrderMap s). arrayIndex (fst e) = None"
    and c: "toLowerCase (type t) = ''t/p'' \<or> toLowerCase (type t) = ''s/l''"
    by blast+
  from i have "objectEntries (openOrderMap s) = openOrderMap s"
    by (rule objectEntries_plain)
  then have e: "objectEntries (openOrderMap s) = (k, v) # rest"
    by (simp add: m)
  from d have r: "delete k ((k, v) # rest) = rest"
    unfolding m by (rule delete_head)
  from c have "openOrderMap (switchTrade s t) = delete k (openOrderMap s)"
    by (cases v) (auto simp: switchTrade_def Let_def e k)
  then show "openOrderMap (switchTrade s t) = rest"
    by (simp add: m r)
next
  show "openOrderMap (foldl switchTrade initialState [openO1, openO2, closeC1])
        = [(time openO2, (1, 1.2))]"
    by (simp add: switchTrade_def initialState_def openO1_def openO2_def closeC1_def
        toLowerCase_def lowerChar_def toFixed_def objectEntries_def indexEntries_def
        arrayIndex_def digitValue_def delete_def)
next
  show "calculateAverageEntryPrice
        (openOrderMap (foldl switchTrade initialState [openO1, openO2, closeC1])) = 1.2"
    by (simp add: switchTrade_def initialState_def openO1_def openO2_def closeC1_def
        toLowerCase_def lowerChar_def toFixed_def objectEntries_def indexEntries_def
        arrayIndex_def digitValue_def delete_def calculateAverageEntryPrice_def sumLotsPL_def
        objectValues_def)
next
  show "map (\<lambda>r. (pd_position r, pd_aep r)) (periodData (Some [bar0910]) [openO1, openO2, closeC1])
        = [(1, 1.2)]"
    by (simp add: periodData_def periodRow_def bar0910_def PeriodData.extend_def
        switchTrade_def initialState_def openO1_def openO2_def closeC1_def
        toLowerCase_def lowerChar_def toFixed_def objectEntries_def indexEntries_def
        arrayIndex_def digitValue_def delete_def calculateAverageEntryPrice_def sumLotsPL_def
        objectValues_def)
qed

text \<open>
  C3: a close removes the oldest open lot, the one created first, and the code says so
  (``Get the oldest open order''). It takes \<^verbatim>\<open>Object.keys(openOrderMap)[0]\<close>, and
  property enumeration puts a key that is an array index before every other key. The
  time text 2022 is a valid date and an array index: after a buy dated
  2021.01.01 00:00 (1 lot at 1.1) and a buy dated 2022 (1 lot at 1.2), the first key
  listed is 2022. The close removes this newer lot in both copies, the older lot stays,
  and the row of the bar shows the average entry price 1.1 of the older lot.
\<close>

theorem close_removes_newer_lot_at_index_key:
  "openOrderMap (foldl switchTrade initialState [openOld, openYear])
     = [(''2021.01.01 00:00'', (1, 1.1)), (''2022'', (1, 1.2))]
   \<and> objectKeys (openOrderMap (foldl switchTrade initialState [openOld, openYear]))
       = [''2022'', ''2021.01.01 00:00'']
   \<and> openOrderMap (foldl switchTrade initialState [openOld, openYear, closeLater])
       = [(''2021.01.01 00:00'', (1, 1.1))]
   \<and> openOrderMap (foldl switchTrade2 initialState [openOld, openYear, closeLater])
       = [(''2021.01.01 00:00'', (1, 1.1))]
   \<and> calculateAverageEntryPrice
        (openOrderMap (foldl switchTrade initialState [openOld, openYear, closeLater])) = 1.1
   \<and> map (\<lambda>r. (pd_position r, pd_aep r))
        (periodData (Some [barLater]) [openOld, openYear, closeLater]) = [(1, 1.1)]"
proof (intro conjI)
  show "openOrderMap (foldl switchTrade initialState [openOld, openYear])
     = [(''2021.01.01 00:00'', (1, 1.1)), (''2022'', (1, 1.2))]"
    by (simp add: switchTrade_def initialState_def openOld_def openYear_def
        toLowerCase_def lowerChar_def)
  show "objectKeys (openOrderMap (foldl switchTrade initialState [openOld, openYear]))
       = [''2022'', ''2021.01.01 00:00'']"
    by (simp add: switchTrade_def initialState_def openOld_def openYear_def
        toLowerCase_def lowerChar_def objectKeys_def objectEntries_def indexEntries_def
        arrayIndex_def digitValue_def)
  show "openOrderMap (foldl switchTrade initialState [openOld, openYear, closeLater])
       = [(''2021.01.01 00:00'', (1, 1.1))]"
    by (simp add: switchTrade_def initialState_def openOld_def openYear_def closeLater_def
        toLowerCase_def lowerChar_def toFixed_def objectEntries_def indexEntries_def
        arrayIndex_def digitValue_def delete_def)
  show "openOrderMap (foldl switchTrade2 initialState [openOld, openYear, closeLater])
       = [(''2021.01.01 00:00'', (1, 1.1))]"
    by (simp add: switchTrade2_def initialState_def openOld_def openYear_def closeLater_def
        toLowerCase_def lowerChar_def toFixed_def objectEntries_def indexEntries_def
        arrayIndex_def digitValue_def delete_def)
  show "calculateAverageEntryPrice
        (openOrderMap (foldl switchTrade initialState [openOld, openYear, closeLater])) = 1.1"
    by (simp add: switchTrade_def initialState_def openOld_def openYear_def closeLater_def
        toLowerCase_def lowerChar_def toFixed_def objectEntries_def indexEntries_def
        arrayIndex_def digitValue_def delete_def calculateAverageEntryPrice_def sumLotsPL_def
        objectValues_def)
  show "map (\<lambda>r. (pd_position r, pd_aep r))
        (periodData (Some [barLater]) [openOld, openYear, closeLater]) = [(1, 1.1)]"
    by (simp add: periodData_def periodRow_def barLater_def PeriodData.extend_def
        switchTrade_def initialState_def openOld_def openYear_def closeLater_def
        toLowerCase_def lowerChar_def toFixed_def objectEntries_def indexEntries_def
        arrayIndex_def digitValue_def delete_def calculateAverageEntryPrice_def sumLotsPL_def
        objectValues_def)
qed

section \<open>The average entry price\<close>

text \<open>
  C5, as stated: the function returns the weighted mean of the open lots unless the
  absolute net position is below 0.001, and the sentinel 0 when it is. The guard of the
  code is \<^verbatim>\<open>Math.abs(sumLots) > 0.001\<close>, on the lots in the map: a single open lot of
  0.001 has a sum that is not below 0.001 and a weighted mean of 1.1, and the function
  returns 0. And the guard does not read the position counter: after a buy and a sell of
  one lot with the same time text the counter is 0, the map holds the short lot alone,
  and the function returns its price 1.2, not 0.
\<close>

theorem average_entry_price_counterexample:
  "fst (sumLotsPL (openOrderMap (switchTrade initialState tinyBuy))) = 0.001
   \<and> snd (sumLotsPL (openOrderMap (switchTrade initialState tinyBuy)))
        / fst (sumLotsPL (openOrderMap (switchTrade initialState tinyBuy))) = 1.1
   \<and> calculateAverageEntryPrice (openOrderMap (switchTrade initialState tinyBuy)) = 0
   \<and> position (foldl switchTrade initialState [openO1, sellAt0900]) = 0
   \<and> calculateAverageEntryPrice (openOrderMap (foldl switchTrade initialState [openO1, sellAt0900]))
        = 1.2"
  by (simp add: switchTrade_def initialState_def openO1_def sellAt0900_def tinyBuy_def
      toLowerCase_def lowerChar_def toFixed_def objectEntries_def indexEntries_def
      arrayIndex_def digitValue_def calculateAverageEntryPrice_def sumLotsPL_def
      objectValues_def)

text \<open>
  C5, amended: the function returns the weighted mean of the entry prices of all open
  lots, with their signed lots as weights, when the absolute value of the sum of the
  signed lots in the map is above 0.001, and the sentinel 0 when that sum is at most
  0.001 in absolute value. The sum is the one of the open lots, not the position counter.
\<close>

theorem average_entry_price_weighted_mean:
  "calculateAverageEntryPrice m =
     (if \<bar>sum_list (map (\<lambda>e. fst (snd e)) m)\<bar> > 0.001
      then sum_list (map (\<lambda>e. fst (snd e) * snd (snd e)) m) / sum_list (map (\<lambda>e. fst (snd e)) m)
      else 0)"
  by (simp add: calculateAverageEntryPrice_def sumLotsPL_eq)

section \<open>Win rate\<close>

text \<open>
  C7: the win rate is the number of winning closed trades over the number of closed
  trades floored at 1, as a percentage printed with one decimal; the closed trades are
  the rows whose lowercased type is t/p or s/l. The floored divisor is never zero, so the
  result is a number for every ledger, never \<^verbatim>\<open>NaN\<close>. With no closed trade it is 0,
  where the quotient by the count itself would be \<^verbatim>\<open>NaN\<close>.
\<close>

theorem win_rate_floor_denominator:
  "winRate trades
     = JsNum (toFixed 1
         (real (length (filter (\<lambda>t. (toLowerCase (type t) = ''t/p'' \<or> toLowerCase (type t) = ''s/l'')
                                      \<and> profitLoss t > 0) trades))
            / real (max (length (filter (\<lambda>t. toLowerCase (type t) = ''t/p''
                                             \<or> toLowerCase (type t) = ''s/l'') trades)) 1)
            * 100))
   \<and> winRate trades \<noteq> JsNaN
   \<and> (filter (\<lambda>t. toLowerCase (type t) = ''t/p'' \<or> toLowerCase (type t) = ''s/l'') trades = []
        \<longrightarrow> winRate trades = JsNum 0
            \<and> jsDivide (real (winningTrades trades)) (real (length (closedTrades trades))) = JsNaN)"
proof -
  let ?closed = "filter (\<lambda>t. toLowerCase (type t) = ''t/p'' \<or> toLowerCase (type t) = ''s/l'') trades"
  have c: "closedTrades trades = ?closed"
    by (simp add: closedTrades_def)
  have w: "winningTrades trades
             = length (filter (\<lambda>t. (toLowerCase (type t) = ''t/p'' \<or> toLowerCase (type t) = ''s/l'')
                                      \<and> profitLoss t > 0) trades)"
    by (simp add: winningTrades_def closedTrades_def conj_commute)
  have t: "totalClosedTrades trades = max (length ?closed) 1"
    by (cases ?closed) (simp_all add: totalClosedTrades_def c)
  have nz: "real (max (length ?closed) 1) \<noteq> 0"
    by simp
  have r: "winRate trades
     = JsNum (toFixed 1
         (real (length (filter (\<lambda>t. (toLowerCase (type t) = ''t/p'' \<or> toLowerCase (type t) = ''s/l'')
                                      \<and> profitLoss t > 0) trades))
            / real (max (length ?closed) 1) * 100))"
    unfolding winRate_def t w jsDivide_def using nz by simp
  have z: "winRate trades = JsNum 0
            \<and> jsDivide (real (winningTrades trades)) (real (length (closedTrades trades))) = JsNaN"
    if e: "?closed = []"
  proof -
    from e have "filter (\<lambda>t. (toLowerCase (type t) = ''t/p'' \<or> toLowerCase (type t) = ''s/l'')
                                      \<and> profitLoss t > 0) trades = []"
      by (auto simp: filter_empty_conv)
    with r e w show ?thesis
      by (simp add: toFixed_def jsDivide_def c)
  qed
  from r z show ?thesis
    by simp
qed

theorem win_rate_floor_denominator_witness:
  "winRate [openO1, openO2] = JsNum 0
   \<and> jsDivide (real (winningTrades [openO1, openO2])) (real (length (closedTrades [openO1, openO2])))
       = JsNaN
   \<and> winRate [openO1, closeC1, closeSL] = JsNum 50"
proof -
  have c: "filter (\<lambda>t. toLowerCase (type t) = ''t/p'' \<or> toLowerCase (type t) = ''s/l'')
             [openO1, openO2] = []"
    by (simp add: openO1_def openO2_def toLowerCase_def lowerChar_def)
  have d: "winRate [openO1, closeC1, closeSL] = JsNum 50"
    using win_rate_floor_denominator [of "[openO1, closeC1, closeSL]"]
    by (simp add: openO1_def closeC1_def closeSL_def toLowerCase_def lowerChar_def toFixed_def)
  from win_rate_floor_denominator [of "[openO1, openO2]"] c d show ?thesis
    by blast
qed

section \<open>Drawdown\<close>

lemma drawdownStep_nonneg: "0 \<le> fst (drawdownStep st trade)"
  by (simp add: drawdownStep_def Let_def)

lemma drawdownStep_max:
  "maxDrawdown (snd (drawdownStep st trade)) = max (fst (drawdownStep st trade)) (maxDrawdown st)"
  by (simp add: drawdownStep_def Let_def max_def)

lemma drawdownStep_balance:
  "balance (snd (drawdownStep st trade)) = balance st + profitLoss trade"
  by (simp add: drawdownStep_def Let_def)

lemma drawdownLoop_Cons:
  "drawdownLoop st (trade # trades) =
     ((fst (drawdownStep st trade), maxDrawdown (snd (drawdownStep st trade)))
        # fst (drawdownLoop (snd (drawdownStep st trade)) trades),
      snd (drawdownLoop (snd (drawdownStep st trade)) trades))"
  by (simp split: prod.splits)

lemma drawdownLoop_length: "length (fst (drawdownLoop st trades)) = length trades"
  by (induction trades arbitrary: st) (simp_all add: drawdownLoop_Cons del: drawdownLoop.simps(2))

lemma drawdownLoop_nonneg:
  "\<forall>p \<in> set (fst (drawdownLoop st trades)). 0 \<le> fst p"
  by (induction trades arbitrary: st)
    (simp_all add: drawdownLoop_Cons drawdownStep_nonneg del: drawdownLoop.simps(2))

lemma drawdownLoop_final:
  "maxDrawdown (snd (drawdownLoop st trades))
     = fold max (map fst (fst (drawdownLoop st trades))) (maxDrawdown st)"
  by (induction trades arbitrary: st)
    (simp_all add: drawdownLoop_Cons drawdownStep_max del: drawdownLoop.simps(2))

lemma drawdownLoop_balance:
  "balance (snd (drawdownLoop st trades)) = balance st + sum_list (map profitLoss trades)"
  by (induction trades arbitrary: st)
    (simp_all add: drawdownLoop_Cons drawdownStep_balance del: drawdownLoop.simps(2))

lemma drawdownLoop_running:
  "i < length trades \<Longrightarrow>
     snd (fst (drawdownLoop st trades) ! i)
       = fold max (take (Suc i) (map fst (fst (drawdownLoop st trades)))) (maxDrawdown st)"
proof (induction trades arbitrary: st i)
  case Nil
  then show ?case by simp
next
  case (Cons trade trades)
  show ?case
  proof (cases i)
    case 0
    then show ?thesis
      by (simp add: drawdownLoop_Cons drawdownStep_max del: drawdownLoop.simps(2))
  next
    case (Suc j)
    with Cons.prems have "j < length trades" by simp
    from Cons.IH [OF this, of "snd (drawdownStep st trade)"] Suc show ?thesis
      by (simp add: drawdownLoop_Cons drawdownStep_max del: drawdownLoop.simps(2))
  qed
qed

lemma fold_max_ge: "(a::real) \<le> fold max xs a"
proof (induction xs arbitrary: a)
  case Nil
  then show ?case by simp
next
  case (Cons x xs)
  have "a \<le> max x a" by simp
  also have "\<dots> \<le> fold max xs (max x a)" by (rule Cons.IH)
  finally show ?case by simp
qed

lemma fold_max_take_mono:
  "i \<le> j \<Longrightarrow> fold max (take i xs) (a::real) \<le> fold max (take j xs) a"
proof -
  assume "i \<le> j"
  then have "take j xs = take i xs @ take (j - i) (drop i xs)"
    by (metis le_add_diff_inverse take_add)
  then show ?thesis
    by (simp add: fold_max_ge)
qed

text \<open>
  C8: the balance starts at 100000 and adds every row's profit in ledger order; each
  iteration's drawdown is non-negative; \<open>maxDrawdown\<close> after the iteration \<open>i\<close> is the
  largest of 0 and the drawdowns up to \<open>i\<close>, so it never decreases along the ledger; the
  reported value is the largest of 0 and all drawdowns, and is non-negative.
\<close>

theorem drawdown_running_maximum:
  "length (drawdowns trades) = length trades
   \<and> length (runningMaxDrawdown trades) = length trades
   \<and> (\<forall>i < length trades. 0 \<le> drawdowns trades ! i)
   \<and> (\<forall>i < length trades.
        runningMaxDrawdown trades ! i = fold max (take (Suc i) (drawdowns trades)) 0)
   \<and> (\<forall>i j. i \<le> j \<and> j < length trades
        \<longrightarrow> runningMaxDrawdown trades ! i \<le> runningMaxDrawdown trades ! j)
   \<and> calcMaxDrawdown trades = fold max (drawdowns trades) 0
   \<and> 0 \<le> calcMaxDrawdown trades
   \<and> balance (snd (drawdownLoop drawdownInit trades))
       = 100000 + sum_list (map profitLoss trades)"
proof -
  have len: "length (drawdowns trades) = length trades"
    "length (runningMaxDrawdown trades) = length trades"
    by (simp_all add: drawdowns_def runningMaxDrawdown_def drawdownLoop_length)
  have nonneg: "\<forall>i < length trades. 0 \<le> drawdowns trades ! i"
    using drawdownLoop_nonneg [of drawdownInit trades]
    by (simp add: drawdowns_def drawdownLoop_length)
  have run: "\<forall>i < length trades.
        runningMaxDrawdown trades ! i = fold max (take (Suc i) (drawdowns trades)) 0"
    using drawdownLoop_running [of _ trades drawdownInit]
    by (simp add: drawdowns_def runningMaxDrawdown_def drawdownLoop_length drawdownInit_def)
  have mono: "\<forall>i j. i \<le> j \<and> j < length trades
        \<longrightarrow> runningMaxDrawdown trades ! i \<le> runningMaxDrawdown trades ! j"
  proof (intro allI impI)
    fix i j
    assume h: "i \<le> j \<and> j < length trades"
    then have "runningMaxDrawdown trades ! i = fold max (take (Suc i) (drawdowns trades)) 0"
      and "runningMaxDrawdown trades ! j = fold max (take (Suc j) (drawdowns trades)) 0"
      using run by simp_all
    moreover from h have "Suc i \<le> Suc j" by simp
    ultimately show "runningMaxDrawdown trades ! i \<le> runningMaxDrawdown trades ! j"
      by (simp add: fold_max_take_mono)
  qed
  have fin: "calcMaxDrawdown trades = fold max (drawdowns trades) 0"
    using drawdownLoop_final [of drawdownInit trades]
    by (simp add: calcMaxDrawdown_def drawdowns_def drawdownInit_def)
  have pos: "0 \<le> calcMaxDrawdown trades"
    unfolding fin by (rule fold_max_ge)
  have bal: "balance (snd (drawdownLoop drawdownInit trades))
       = 100000 + sum_list (map profitLoss trades)"
    by (simp add: drawdownLoop_balance drawdownInit_def)
  from len nonneg run mono fin pos bal show ?thesis
    by blast
qed

theorem drawdown_running_maximum_witness:
  "drawdowns [openO1, closeC1, closeSL] = [0, 0, 20 / 100050 * 100]
   \<and> runningMaxDrawdown [openO1, closeC1, closeSL] ! 1
       \<le> runningMaxDrawdown [openO1, closeC1, closeSL] ! 2
   \<and> 0 \<le> drawdowns [openO1, closeC1, closeSL] ! 2"
proof -
  have d: "drawdowns [openO1, closeC1, closeSL] = [0, 0, 20 / 100050 * 100]"
    by (simp add: drawdowns_def drawdownInit_def drawdownStep_def Let_def openO1_def
        closeC1_def closeSL_def)
  have l: "(2::nat) < length [openO1, closeC1, closeSL]" "(1::nat) \<le> 2"
    by simp_all
  from drawdown_running_maximum [of "[openO1, closeC1, closeSL]"] l d show ?thesis
    by blast
qed

section \<open>The ledger loop\<close>

lemma processTrades_eq:
  "processTrades sw ts ledger s
     = (dropWhile (due ts) ledger, foldl sw s (takeWhile (due ts) ledger))"
  by (induction ledger arbitrary: s) (auto simp: due_def split: option.splits)

lemma runPeriods_length: "length (runPeriods sw bars ledger s) = length bars"
  by (induction bars arbitrary: ledger s) (auto split: prod.splits)

lemma runPeriods_row:
  "i < length bars \<Longrightarrow>
     snd (runPeriods sw bars ledger s ! i) = periodRow (fst (runPeriods sw bars ledger s ! i)) (bars ! i)"
proof (induction bars arbitrary: ledger s i)
  case Nil
  then show ?case by simp
next
  case (Cons data bars)
  then show ?case
    by (cases i) (auto split: prod.splits)
qed

section \<open>Rows of other types\<close>

text \<open>
  C10: a ledger row whose lowercased type is none of buy, sell, t/p and s/l matches no
  case of the switch, so the dispatch returns the state it was given (position, map and
  closed profit). The row is shifted off the ledger all the same: when its date is at or
  before the bar's, the loop goes on with the rest of the ledger and the same state, and
  the rows of this and of all later bars are those of the ledger without it.
\<close>

theorem other_type_is_skipped:
  assumes "toLowerCase (type t) \<notin> {''buy'', ''sell'', ''t/p'', ''s/l''}"
  shows "switchTrade s t = s
       \<and> (due ts t \<longrightarrow>
            processTrades switchTrade ts (t # rest) s = processTrades switchTrade ts rest s)
       \<and> (due (timestamp data) t \<longrightarrow>
            runPeriods switchTrade (data # bars) (t # rest) s
              = runPeriods switchTrade (data # bars) rest s)"
proof -
  from assms have same: "switchTrade s t = s"
    by (simp add: switchTrade_def Let_def)
  have loop: "processTrades switchTrade u (t # rest) s = processTrades switchTrade u rest s"
    if "due u t" for u
    using that same by (auto simp: due_def split: option.splits)
  from same loop show ?thesis
    by simp
qed

theorem other_type_is_skipped_witness:
  "switchTrade (switchTrade initialState openO1) otherRow = switchTrade initialState openO1
   \<and> runPeriods switchTrade [bar0910] [otherRow, closeC1] (switchTrade initialState openO1)
       = runPeriods switchTrade [bar0910] [closeC1] (switchTrade initialState openO1)"
proof -
  have a: "toLowerCase (type otherRow) \<notin> {''buy'', ''sell'', ''t/p'', ''s/l''}"
    by (simp add: otherRow_def toLowerCase_def lowerChar_def)
  have b: "due (timestamp bar0910) otherRow"
    by (simp add: due_def otherRow_def bar0910_def)
  from other_type_is_skipped [OF a, of "switchTrade initialState openO1" _ _ bar0910] b
  show ?thesis
    by blast
qed

section \<open>The two copies of the replay\<close>

lemma switchTrade2_eq:
  assumes "toLowerCase (type t) \<noteq> ''s/l''" and "toLowerCase (type t) \<noteq> ''close at stop''"
  shows "switchTrade2 s t = switchTrade s t"
  using assms by (simp add: switchTrade_def switchTrade2_def Let_def)

lemma foldl_cong_set:
  "\<forall>t \<in> set ts. \<forall>s. f s t = g s t \<Longrightarrow> foldl f s ts = foldl g s ts"
  by (induction ts arbitrary: s) simp_all

lemma processTrades_cong:
  assumes "\<forall>t \<in> set ledger. \<forall>s. f s t = g s t"
  shows "processTrades f ts ledger s = processTrades g ts ledger s"
proof -
  have "\<forall>t \<in> set (takeWhile (due ts) ledger). \<forall>s. f s t = g s t"
    using assms by (meson set_takeWhileD)
  then show ?thesis
    by (simp add: processTrades_eq foldl_cong_set)
qed

lemma runPeriods_cong:
  "\<forall>t \<in> set ledger. \<forall>s. f s t = g s t \<Longrightarrow> runPeriods f bars ledger s = runPeriods g bars ledger s"
proof (induction bars arbitrary: ledger s)
  case Nil
  then show ?case by simp
next
  case (Cons data bars)
  have p: "processTrades f (timestamp data) ledger s = processTrades g (timestamp data) ledger s"
    using Cons.prems by (rule processTrades_cong)
  have "\<forall>t \<in> set (dropWhile (due (timestamp data)) ledger). \<forall>s. f s t = g s t"
    using Cons.prems by (meson set_dropWhileD)
  from Cons.IH [OF this] p show ?case
    by (simp add: processTrades_eq)
qed

lemma truncate_rows:
  "length rows = length bars \<Longrightarrow>
     map PeriodData.truncate
       (map (\<lambda>(data, row). PeriodData.extend row \<lparr>pd_timestamp = timestamp data\<rparr>) (zip bars rows))
       = rows"
proof (induction rows arbitrary: bars)
  case Nil
  then show ?case by simp
next
  case (Cons row rows)
  then show ?case
    by (cases bars) (simp_all add: PeriodData.truncate_def PeriodData.extend_def)
qed

lemma periodData_rows:
  "map PeriodData.truncate (periodData md ledger)
     = (case md of None \<Rightarrow> []
        | Some bars \<Rightarrow> map snd (runPeriods switchTrade bars ledger initialState))"
  by (cases md) (simp_all add: periodData_def truncate_rows runPeriods_length del: map_map)

text \<open>
  C9: on a ledger whose lowercased types are all among buy, sell and t/p, the two copies
  emit the same rows for every price series (the copy in Analytics.tsx with the bar's
  timestamp added). More generally they agree on every ledger that has no row of type
  s/l and none of type close at stop, the two labels on which the switches differ; on a
  row of type s/l that meets an open lot they do differ.
\<close>

theorem replay_copies_agree:
  "((\<forall>t \<in> set ledger. toLowerCase (type t) \<in> {''buy'', ''sell'', ''t/p''})
      \<longrightarrow> map PeriodData.truncate (periodData md ledger) = periodData2 md ledger)
   \<and> ((\<forall>t \<in> set ledger. toLowerCase (type t) \<notin> {''s/l'', ''close at stop''})
      \<longrightarrow> map PeriodData.truncate (periodData md ledger) = periodData2 md ledger)
   \<and> map PeriodData.truncate (periodData (Some [bar0910]) [openO1, closeSL])
       \<noteq> periodData2 (Some [bar0910]) [openO1, closeSL]"
proof (intro conjI impI)
  have main: "map PeriodData.truncate (periodData md ledger) = periodData2 md ledger"
    if h: "\<forall>t \<in> set ledger. toLowerCase (type t) \<notin> {''s/l'', ''close at stop''}"
  proof -
    from h have "\<forall>t \<in> set ledger. \<forall>s. switchTrade2 s t = switchTrade s t"
      by (simp add: switchTrade2_eq)
    then have "runPeriods switchTrade2 bars ledger initialState
                 = runPeriods switchTrade bars ledger initialState" for bars
      by (rule runPeriods_cong)
    then show ?thesis
      by (cases md) (simp_all add: periodData_rows periodData2_def)
  qed
  show "map PeriodData.truncate (periodData md ledger) = periodData2 md ledger"
    if "\<forall>t \<in> set ledger. toLowerCase (type t) \<notin> {''s/l'', ''close at stop''}"
    using that by (rule main)
  show "map PeriodData.truncate (periodData md ledger) = periodData2 md ledger"
    if "\<forall>t \<in> set ledger. toLowerCase (type t) \<in> {''buy'', ''sell'', ''t/p''}"
  proof (rule main)
    from that show "\<forall>t \<in> set ledger. toLowerCase (type t) \<notin> {''s/l'', ''close at stop''}"
      by auto
  qed
  show "map PeriodData.truncate (periodData (Some [bar0910]) [openO1, closeSL])
       \<noteq> periodData2 (Some [bar0910]) [openO1, closeSL]"
    by (simp add: periodData_rows periodData2_def periodRow_def bar0910_def
        switchTrade_def switchTrade2_def initialState_def openO1_def closeSL_def
        toLowerCase_def lowerChar_def toFixed_def objectEntries_def indexEntries_def
        arrayIndex_def digitValue_def delete_def)
qed

theorem replay_copies_agree_witness:
  "map PeriodData.truncate (periodData (Some [bar0910]) [openO1, openO2, closeC1])
     = periodData2 (Some [bar0910]) [openO1, openO2, closeC1]"
proof -
  have "\<forall>t \<in> set [openO1, openO2, closeC1]. toLowerCase (type t) \<in> {''buy'', ''sell'', ''t/p''}"
    by (simp add: openO1_def openO2_def closeC1_def toLowerCase_def lowerChar_def)
  with replay_copies_agree [of "[openO1, openO2, closeC1]" "Some [bar0910]"] show ?thesis
    by blast
qed

section \<open>Which trades a bar has seen\<close>

lemma notAfter_due: "notAfter a b \<Longrightarrow> due ts b \<Longrightarrow> due ts a"
  by (auto simp: notAfter_def due_def split: option.splits)

lemma due_mono: "ts \<le> ts' \<Longrightarrow> due ts t \<Longrightarrow> due ts' t"
  by (auto simp: due_def split: option.splits)

lemma timeSorted_Cons:
  "timeSorted (t # ledger)
     = (getTime t \<noteq> None \<and> (\<forall>u \<in> set ledger. notAfter t u) \<and> timeSorted ledger)"
  by (auto simp: timeSorted_def)

lemma timeSorted_takeWhile:
  "timeSorted ledger \<Longrightarrow> takeWhile (due ts) ledger = filter (due ts) ledger"
proof (induction ledger)
  case Nil
  then show ?case by simp
next
  case (Cons t ledger)
  show ?case
  proof (cases "due ts t")
    case True
    with Cons show ?thesis by (simp add: timeSorted_Cons)
  next
    case False
    have "\<not> due ts u" if "u \<in> set ledger" for u
    proof
      assume "due ts u"
      moreover from Cons.prems that have "notAfter t u"
        by (simp add: timeSorted_Cons)
      ultimately have "due ts t" by (metis notAfter_due)
      with False show False by simp
    qed
    then have "filter (due ts) ledger = []"
      by (simp add: filter_empty_conv)
    with False show ?thesis by simp
  qed
qed

lemma timeSorted_dropWhile: "timeSorted ledger \<Longrightarrow> timeSorted (dropWhile P ledger)"
  by (induction ledger) (auto simp: timeSorted_Cons)

lemma takeWhile_then_filter:
  assumes "ts \<le> ts'"
  shows "takeWhile (due ts) ledger @ filter (due ts') (dropWhile (due ts) ledger)
           = filter (due ts') ledger"
proof -
  have "\<forall>t \<in> set (takeWhile (due ts) ledger). due ts' t"
    using assms by (meson due_mono set_takeWhileD)
  then have "filter (due ts') (takeWhile (due ts) ledger) = takeWhile (due ts) ledger"
    by (simp add: filter_id_conv)
  moreover have "filter (due ts') ledger
      = filter (due ts') (takeWhile (due ts) ledger) @ filter (due ts') (dropWhile (due ts) ledger)"
    by (metis filter_append takeWhile_dropWhile_id)
  ultimately show ?thesis by simp
qed

lemma runPeriods_state:
  "timeSorted ledger \<Longrightarrow> sorted (map timestamp bars) \<Longrightarrow> i < length bars \<Longrightarrow>
     fst (runPeriods sw bars ledger s ! i)
       = foldl sw s (filter (due (timestamp (bars ! i))) ledger)"
proof (induction bars arbitrary: ledger s i)
  case Nil
  then show ?case by simp
next
  case (Cons data bars)
  let ?ts = "timestamp data"
  show ?case
  proof (cases i)
    case 0
    with Cons.prems(1) show ?thesis
      by (simp add: processTrades_eq timeSorted_takeWhile)
  next
    case (Suc j)
    with Cons.prems have j: "j < length bars" and le: "?ts \<le> timestamp (bars ! j)"
      and srt: "sorted (map timestamp bars)"
      by auto
    have "timeSorted (dropWhile (due ?ts) ledger)"
      using Cons.prems(1) by (rule timeSorted_dropWhile)
    from Cons.IH [OF this srt j, of "foldl sw s (takeWhile (due ?ts) ledger)"]
    have "fst (runPeriods sw (data # bars) ledger s ! i)
            = foldl sw s (takeWhile (due ?ts) ledger
                @ filter (due (timestamp (bars ! j))) (dropWhile (due ?ts) ledger))"
      using Suc by (simp add: processTrades_eq)
    with le Suc show ?thesis
      by (simp add: takeWhile_then_filter)
  qed
qed

lemma periodData_nth:
  "i < length bars \<Longrightarrow>
     PeriodData.truncate (periodData (Some bars) ledger ! i)
       = snd (runPeriods switchTrade bars ledger initialState ! i)"
proof -
  assume i: "i < length bars"
  then have "i < length (periodData (Some bars) ledger)"
    by (simp add: periodData_def runPeriods_length)
  then have "PeriodData.truncate (periodData (Some bars) ledger ! i)
               = map PeriodData.truncate (periodData (Some bars) ledger) ! i"
    by simp
  also have "\<dots> = snd (runPeriods switchTrade bars ledger initialState ! i)"
    using i by (simp add: periodData_rows runPeriods_length)
  finally show ?thesis .
qed

text \<open>
  C4: with a time-sorted ledger and the bars in ascending order, the state from which the
  row of a bar is computed is the initial state after the dispatch, in ledger order and
  once each, of exactly the rows dated at or before the bar; this holds for both copies
  and for the rows they emit. A row dated after the last bar is dated after every bar,
  so it is in none of these lists and is never dispatched.
\<close>

theorem bar_sees_trades_up_to_its_time:
  assumes "timeSorted ledger" and "sorted (map timestamp bars)" and "i < length bars"
  shows "fst (runPeriods switchTrade bars ledger initialState ! i)
           = foldl switchTrade initialState (filter (due (timestamp (bars ! i))) ledger)
       \<and> PeriodData.truncate (periodData (Some bars) ledger ! i)
           = periodRow
               (foldl switchTrade initialState (filter (due (timestamp (bars ! i))) ledger))
               (bars ! i)
       \<and> periodData2 (Some bars) ledger ! i
           = periodRow
               (foldl switchTrade2 initialState (filter (due (timestamp (bars ! i))) ledger))
               (bars ! i)
       \<and> (\<forall>t \<in> set ledger. \<not> due (timestamp (last bars)) t
             \<longrightarrow> t \<notin> set (filter (due (timestamp (bars ! i))) ledger))"
proof (intro conjI ballI impI)
  show a: "fst (runPeriods switchTrade bars ledger initialState ! i)
           = foldl switchTrade initialState (filter (due (timestamp (bars ! i))) ledger)"
    using assms by (rule runPeriods_state)
  from assms(3) show "PeriodData.truncate (periodData (Some bars) ledger ! i)
           = periodRow
               (foldl switchTrade initialState (filter (due (timestamp (bars ! i))) ledger))
               (bars ! i)"
    by (simp add: periodData_nth runPeriods_row a)
  have "fst (runPeriods switchTrade2 bars ledger initialState ! i)
           = foldl switchTrade2 initialState (filter (due (timestamp (bars ! i))) ledger)"
    using assms by (rule runPeriods_state)
  with assms(3) show "periodData2 (Some bars) ledger ! i
           = periodRow
               (foldl switchTrade2 initialState (filter (due (timestamp (bars ! i))) ledger))
               (bars ! i)"
    by (simp add: periodData2_def runPeriods_length runPeriods_row)
next
  fix t
  assume late: "\<not> due (timestamp (last bars)) t"
  from assms(3) have "bars \<noteq> []" by auto
  with assms(2,3) have "timestamp (bars ! i) \<le> timestamp (last bars)"
    by (simp add: last_conv_nth sorted_iff_nth_mono)
  with late have "\<not> due (timestamp (bars ! i)) t"
    by (meson due_mono)
  then show "t \<notin> set (filter (due (timestamp (bars ! i))) ledger)"
    by simp
qed

theorem bar_sees_trades_up_to_its_time_witness:
  "fst (runPeriods switchTrade [bar0900, bar0905] [openO1, openO2, closeC1] initialState ! 1)
     = foldl switchTrade initialState [openO1, openO2]
   \<and> closeC1 \<notin> set (filter (due (timestamp ([bar0900, bar0905] ! 1))) [openO1, openO2, closeC1])"
proof -
  have a: "timeSorted [openO1, openO2, closeC1]"
    by (simp add: timeSorted_def notAfter_def due_def openO1_def openO2_def closeC1_def)
  have b: "sorted (map timestamp [bar0900, bar0905])"
    by (simp add: bar0900_def bar0905_def)
  have c: "(1::nat) < length [bar0900, bar0905]"
    by simp
  have d: "filter (due (timestamp ([bar0900, bar0905] ! 1))) [openO1, openO2, closeC1]
             = [openO1, openO2]"
    by (simp add: due_def bar0905_def openO1_def openO2_def closeC1_def)
  have e: "\<not> due (timestamp (last [bar0900, bar0905])) closeC1"
    by (simp add: due_def bar0905_def closeC1_def)
  from bar_sees_trades_up_to_its_time [OF a b c] d e show ?thesis
    by simp
qed

section \<open>Numbers with two decimals\<close>

lemma floor_int_half: "\<lfloor>(of_int n :: real) + 1 / 2\<rfloor> = n"
  by linarith

lemma toFixed2_of_int: "toFixed 2 (of_int k / 100) = of_int k / 100"
proof (cases "k < 0")
  case True
  have "- (real_of_int k / 100) * 10\<^sup>2 + 1 / 2 = of_int (- k) + 1 / 2"
    by simp
  then have "\<lfloor>- (real_of_int k / 100) * 10\<^sup>2 + 1 / 2\<rfloor> = - k"
    by (simp only: floor_int_half)
  with True show ?thesis
    by (simp add: toFixed_def)
next
  case False
  have "real_of_int k / 100 * 10\<^sup>2 + 1 / 2 = of_int k + 1 / 2"
    by simp
  then have "\<lfloor>real_of_int k / 100 * 10\<^sup>2 + 1 / 2\<rfloor> = k"
    by (simp only: floor_int_half)
  with False show ?thesis
    by (simp add: toFixed_def)
qed

lemma toFixed2_form: "\<exists>k::int. toFixed 2 x = of_int k / 100"
proof (cases "x < 0")
  case True
  then have "toFixed 2 x = of_int (- \<lfloor>(- x) * 10\<^sup>2 + 1 / 2\<rfloor>) / 100"
    by (simp add: toFixed_def)
  then show ?thesis by blast
next
  case False
  then have "toFixed 2 x = of_int \<lfloor>x * 10\<^sup>2 + 1 / 2\<rfloor> / 100"
    by (simp add: toFixed_def)
  then show ?thesis by blast
qed

lemma centsValue_iff: "centsValue x \<longleftrightarrow> (\<exists>k::int. x = of_int k / 100)"
proof
  assume "centsValue x"
  then show "\<exists>k::int. x = of_int k / 100"
    using toFixed2_form [of x] by (simp add: centsValue_def)
next
  assume "\<exists>k::int. x = of_int k / 100"
  then obtain k :: int where "x = of_int k / 100" ..
  then show "centsValue x"
    unfolding centsValue_def by (simp only: toFixed2_of_int)
qed

lemma centsValue_toFixed: "centsValue (toFixed 2 x)"
  using toFixed2_form [of x] by (simp add: centsValue_iff)

lemma centsValue_0: "centsValue 0"
  using toFixed2_of_int [of 0] by (simp add: centsValue_def)




lemma centsValue_threshold:
  assumes "centsValue p"
  shows "(\<bar>p\<bar> > 0.001) = (\<not> \<bar>p\<bar> < 0.001)"
proof -
  from assms obtain k :: int where p: "p = of_int k / 100"
    by (auto simp: centsValue_iff)
  show ?thesis
  proof (cases "k = 0")
    case True
    with p show ?thesis by simp
  next
    case False
    then have "1 \<le> \<bar>k\<bar>" by simp
    then have "1 \<le> \<bar>real_of_int k\<bar>" by linarith
    with p have "0.01 \<le> \<bar>p\<bar>" by simp
    then show ?thesis by simp
  qed
qed

section \<open>The floating value\<close>

lemma switchTrade_position_cents:
  "centsValue (position s) \<Longrightarrow> centsValue (position (switchTrade s t))"
  by (auto simp: switchTrade_def Let_def centsValue_toFixed split: list.splits)

lemma switchTrade2_position_cents:
  "centsValue (position s) \<Longrightarrow> centsValue (position (switchTrade2 s t))"
  by (auto simp: switchTrade2_def Let_def centsValue_toFixed split: list.splits)

lemma foldl_position_cents:
  assumes "\<And>s t. centsValue (position s) \<Longrightarrow> centsValue (position (sw s t))"
  shows "centsValue (position s) \<Longrightarrow> centsValue (position (foldl sw s ts))"
  by (induction ts arbitrary: s) (simp_all add: assms)

lemma runPeriods_reach:
  "i < length bars \<Longrightarrow> \<exists>applied. fst (runPeriods sw bars ledger s ! i) = foldl sw s applied"
proof (induction bars arbitrary: ledger s i)
  case Nil
  then show ?case by simp
next
  case (Cons data bars)
  let ?s' = "foldl sw s (takeWhile (due (timestamp data)) ledger)"
  show ?case
  proof (cases i)
    case 0
    then show ?thesis
      by (auto simp: processTrades_eq)
  next
    case (Suc j)
    with Cons.prems have "j < length bars" by simp
    from Cons.IH [OF this, of "dropWhile (due (timestamp data)) ledger" ?s']
    obtain applied where
      "fst (runPeriods sw bars (dropWhile (due (timestamp data)) ledger) ?s' ! j)
         = foldl sw ?s' applied"
      by blast
    then have "fst (runPeriods sw (data # bars) ledger s ! i)
                 = foldl sw s (takeWhile (due (timestamp data)) ledger @ applied)"
      using Suc by (simp add: processTrades_eq)
    then show ?thesis by blast
  qed
qed

lemma runPeriods_position_cents:
  assumes "\<And>s t. centsValue (position s) \<Longrightarrow> centsValue (position (sw s t))"
    and "i < length bars"
  shows "centsValue (position (fst (runPeriods sw bars ledger initialState ! i)))"
proof -
  from assms(2) obtain applied where
    "fst (runPeriods sw bars ledger initialState ! i) = foldl sw initialState applied"
    using runPeriods_reach by blast
  moreover have "centsValue (position initialState)"
    by (simp add: initialState_def centsValue_0)
  ultimately show ?thesis
    using foldl_position_cents [of sw initialState applied] assms(1) by simp
qed

lemma floating_cents:
  assumes "centsValue (position s)"
  shows "floating s data =
     (if \<bar>position s\<bar> < 0.001 then 0
      else (close data - calculateAverageEntryPrice (openOrderMap s)) * position s * 100000
             / conversionFx data)"
  using centsValue_threshold [OF assms] by (simp add: floating_def)

text \<open>
  C6: at every bar, for every ledger and price series, the floating value computed from
  the state of the replay is 0 when the absolute position is below 0.001, and otherwise
  the difference of the bar's close and the average entry price, times the position,
  times 100000, over the bar's conversion rate. The position is always a number with two
  decimals, so the guard \<^verbatim>\<open>Math.abs(position) > 0.001\<close> of the code and the condition
  of the claim select the same cases. The row stores the value rounded to two decimals.
\<close>

theorem floating_pnl_formula:
  assumes "i < length bars"
  shows "floating (fst (runPeriods switchTrade bars ledger initialState ! i)) (bars ! i)
           = (if \<bar>position (fst (runPeriods switchTrade bars ledger initialState ! i))\<bar> < 0.001
              then 0
              else (close (bars ! i)
                      - calculateAverageEntryPrice
                          (openOrderMap (fst (runPeriods switchTrade bars ledger initialState ! i))))
                    * position (fst (runPeriods switchTrade bars ledger initialState ! i))
                    * 100000 / conversionFx (bars ! i))
       \<and> pd_open (periodData (Some bars) ledger ! i)
           = toFixed 2
               (floating (fst (runPeriods switchTrade bars ledger initialState ! i)) (bars ! i))
       \<and> floating (fst (runPeriods switchTrade2 bars ledger initialState ! i)) (bars ! i)
           = (if \<bar>position (fst (runPeriods switchTrade2 bars ledger initialState ! i))\<bar> < 0.001
              then 0
              else (close (bars ! i)
                      - calculateAverageEntryPrice
                          (openOrderMap (fst (runPeriods switchTrade2 bars ledger initialState ! i))))
                    * position (fst (runPeriods switchTrade2 bars ledger initialState ! i))
                    * 100000 / conversionFx (bars ! i))
       \<and> pd_open (periodData2 (Some bars) ledger ! i)
           = toFixed 2
               (floating (fst (runPeriods switchTrade2 bars ledger initialState ! i)) (bars ! i))"
proof (intro conjI)
  have "centsValue (position (fst (runPeriods switchTrade bars ledger initialState ! i)))"
    using switchTrade_position_cents assms by (rule runPeriods_position_cents)
  then show "floating (fst (runPeriods switchTrade bars ledger initialState ! i)) (bars ! i)
           = (if \<bar>position (fst (runPeriods switchTrade bars ledger initialState ! i))\<bar> < 0.001
              then 0
              else (close (bars ! i)
                      - calculateAverageEntryPrice
                          (openOrderMap (fst (runPeriods switchTrade bars ledger initialState ! i))))
                    * position (fst (runPeriods switchTrade bars ledger initialState ! i))
                    * 100000 / conversionFx (bars ! i))"
    by (rule floating_cents)
  have "centsValue (position (fst (runPeriods switchTrade2 bars ledger initialState ! i)))"
    using switchTrade2_position_cents assms by (rule runPeriods_position_cents)
  then show "floating (fst (runPeriods switchTrade2 bars ledger initialState ! i)) (bars ! i)
           = (if \<bar>position (fst (runPeriods switchTrade2 bars ledger initialState ! i))\<bar> < 0.001
              then 0
              else (close (bars ! i)
                      - calculateAverageEntryPrice
                          (openOrderMap (fst (runPeriods switchTrade2 bars ledger initialState ! i))))
                    * position (fst (runPeriods switchTrade2 bars ledger initialState ! i))
                    * 100000 / conversionFx (bars ! i))"
    by (rule floating_cents)
  have "pd_open (periodData (Some bars) ledger ! i)
          = pd_open (PeriodData.truncate (periodData (Some bars) ledger ! i))"
    by (simp add: PeriodData.truncate_def)
  with assms show "pd_open (periodData (Some bars) ledger ! i)
           = toFixed 2
               (floating (fst (runPeriods switchTrade bars ledger initialState ! i)) (bars ! i))"
    by (simp add: periodData_nth runPeriods_row periodRow_def)
  from assms show "pd_open (periodData2 (Some bars) ledger ! i)
           = toFixed 2
               (floating (fst (runPeriods switchTrade2 bars ledger initialState ! i)) (bars ! i))"
    by (simp add: periodData2_def runPeriods_length runPeriods_row periodRow_def)
qed

theorem floating_pnl_formula_witness:
  "floating (fst (runPeriods switchTrade [bar0900, bar0905] [openO1] initialState ! 1)) bar0905
     = (1.103 - 1.1) * 1 * 100000 / 1
   \<and> pd_open (periodData (Some [bar0900, bar0905]) [openO1] ! 1) = 300"
proof -
  have i: "(1::nat) < length [bar0900, bar0905]"
    by simp
  have s: "fst (runPeriods switchTrade [bar0900, bar0905] [openO1] initialState ! 1)
             = \<lparr>openOrderMap = [(''2024.01.01 09:00'', (1, 1.1))], position = 1, closedProfit = 0\<rparr>"
    by (simp add: bar0900_def bar0905_def openO1_def initialState_def switchTrade_def
        toLowerCase_def lowerChar_def toFixed_def)
  have a: "calculateAverageEntryPrice [(''2024.01.01 09:00'', (1, 1.1))] = 1.1"
    by (simp add: calculateAverageEntryPrice_def sumLotsPL_def objectValues_def
        objectEntries_def indexEntries_def arrayIndex_def digitValue_def)
  have f: "floating (fst (runPeriods switchTrade [bar0900, bar0905] [openO1] initialState ! 1))
             bar0905 = 300"
    using floating_pnl_formula [OF i, of "[openO1]"]
    unfolding s by (simp add: a bar0905_def)
  moreover have "pd_open (periodData (Some [bar0900, bar0905]) [openO1] ! 1) = 300"
    using floating_pnl_formula [OF i, of "[openO1]"] f
    by (simp add: toFixed_def)
  ultimately show ?thesis by simp
qed

section \<open>The position counter and the open lots\<close>












end
